theory Spec2Isabelle
  imports Complex_Main
begin

section \<open>JavaScript values used by the library\<close>

text \<open>
  A JavaScript \<open>number\<close> is an IEEE double: a finite value, one of the two infinities,
  or NaN. The scorer only compares numbers with constants, and a comparison of two finite
  doubles agrees with the comparison of the reals they denote, so a finite number is
  modelled by the real it denotes. Every comparison with NaN is false.
\<close>

datatype jsnumber = Num real | PosInfinity | NegInfinity | NaN

fun js_lt :: "jsnumber \<Rightarrow> jsnumber \<Rightarrow> bool" where
  "js_lt NaN _ = False"
| "js_lt _ NaN = False"
| "js_lt (Num x) (Num y) = (x < y)"
| "js_lt (Num _) PosInfinity = True"
| "js_lt (Num _) NegInfinity = False"
| "js_lt NegInfinity (Num _) = True"
| "js_lt NegInfinity PosInfinity = True"
| "js_lt NegInfinity NegInfinity = False"
| "js_lt PosInfinity _ = False"

definition js_gt :: "jsnumber \<Rightarrow> jsnumber \<Rightarrow> bool" where
  "js_gt a b = js_lt b a"

fun js_ge :: "jsnumber \<Rightarrow> jsnumber \<Rightarrow> bool" where
  "js_ge NaN _ = False"
| "js_ge _ NaN = False"
| "js_ge a b = (\<not> js_lt a b)"

text \<open>The nullish coalescing operator \<open>a ?? d\<close>; \<open>None\<close> stands for null and undefined.\<close>

definition nullish :: "'a option \<Rightarrow> 'a \<Rightarrow> 'a" where
  "nullish a d = (case a of None \<Rightarrow> d | Some v \<Rightarrow> v)"

text \<open>
  A thrown value, or the reason of a rejected promise: an instance of \<open>Error\<close> with its
  message, or any other value with the text \<open>String(err)\<close> gives for it.
\<close>

datatype js_thrown = ErrorObject string | OtherValue string

section \<open>Data model (types.ts)\<close>

datatype NetworkQuality = Offline | Poor | Fair | Good | Excellent

text \<open>
  \<open>networkType\<close> and \<open>cellularGeneration\<close> arrive from the native module as strings and
  are cast without a check, so they are strings here.
\<close>

record NetworkMeasurement =
  timestamp :: jsnumber
  networkType :: string
  cellularGeneration :: string
  wifiRssi :: "jsnumber option"
  cellularRssi :: "jsnumber option"
  latencyMs :: "jsnumber option"
  jitterMs :: "jsnumber option"
  downlinkMbps :: "jsnumber option"
  packetLossPercent :: "jsnumber option"
  isConnected :: bool
  failureReason :: "string option"

record NetworkQualityResult =
  quality :: NetworkQuality
  measurement :: NetworkMeasurement

record MeasureOptions =
  extended :: "bool option"
  timeoutMs :: "jsnumber option"

section \<open>The scorer and the one-shot accessor (measureNetworkQuality.ts)\<close>

definition scoreNetworkQuality :: "NetworkMeasurement \<Rightarrow> NetworkQuality" where
  "scoreNetworkQuality m =
     (if \<not> isConnected m then Offline
      else
        let latency = nullish (latencyMs m) (Num 999);
            downlink = nullish (downlinkMbps m) (Num 0);
            loss = nullish (packetLossPercent m) (Num 100)
        in if js_lt latency (Num 50) \<and> js_gt downlink (Num 20) \<and> js_lt loss (Num 1)
           then Excellent
           else if js_lt latency (Num 100) \<and> js_ge downlink (Num 5) \<and> js_lt loss (Num 5)
           then Good
           else if js_lt latency (Num 200) \<and> js_ge downlink (Num 1) \<and> js_lt loss (Num 10)
           then Fair
           else Poor)"

text \<open>The record built field by field from what the native module resolved with.\<close>

definition typedMeasurement :: "NetworkMeasurement \<Rightarrow> NetworkMeasurement" where
  "typedMeasurement m =
     \<lparr> timestamp = timestamp m,
       networkType = networkType m,
       cellularGeneration = cellularGeneration m,
       wifiRssi = wifiRssi m,
       cellularRssi = cellularRssi m,
       latencyMs = latencyMs m,
       jitterMs = jitterMs m,
       downlinkMbps = downlinkMbps m,
       packetLossPercent = packetLossPercent m,
       isConnected = isConnected m,
       failureReason = failureReason m \<rparr>"

text \<open>What \<open>measureNetworkQuality\<close> does once the native call has resolved with \<open>m\<close>.\<close>

definition measureNetworkQuality_resolved :: "NetworkMeasurement \<Rightarrow> NetworkQualityResult" where
  "measureNetworkQuality_resolved m =
     \<lparr> quality = scoreNetworkQuality (typedMeasurement m),
       measurement = typedMeasurement m \<rparr>"

text \<open>
  The native module is outside the JavaScript sources: \<open>measureNetwork\<close> is a parameter,
  giving for the options it is called with either the reason it rejects with or the
  record it resolves with. A rejection passes through the \<open>await\<close> unchanged.
\<close>

definition measureNetworkQuality ::
  "(MeasureOptions option \<Rightarrow> js_thrown + NetworkMeasurement) \<Rightarrow> MeasureOptions option
     \<Rightarrow> js_thrown + NetworkQualityResult" where
  "measureNetworkQuality measureNetwork options =
     (case measureNetwork options of
        Inl err \<Rightarrow> Inl err
      | Inr m \<Rightarrow> Inr (measureNetworkQuality_resolved m))"

section \<open>The watch session (useNetworkQuality)\<close>

text \<open>
  The options of the hook are the options of a measurement and three more fields.
  \<open>onMeasure\<close> is a function of the consumer: it returns (\<open>None\<close>) or throws
  (\<open>Some\<close> of what it throws).
\<close>

type_synonym onMeasure_callback =
  "NetworkQualityResult option \<Rightarrow> string option \<Rightarrow> js_thrown option"

record UseNetworkQualityOptions = MeasureOptions +
  measureOnResume :: "bool option"
  measureOnMount :: "bool option"
  onMeasure :: "onMeasure_callback option"

text \<open>Optional chaining \<open>obj?.field\<close>, and the truthiness of an optional boolean.\<close>

definition chain :: "'a option \<Rightarrow> ('a \<Rightarrow> 'b option) \<Rightarrow> 'b option" where
  "chain obj field = (case obj of None \<Rightarrow> None | Some x \<Rightarrow> field x)"

definition truthy :: "bool option \<Rightarrow> bool" where
  "truthy b = (case b of None \<Rightarrow> False | Some v \<Rightarrow> v)"

text \<open>
  The five state cells of the hook and its ref, followed by what the session's
  surroundings hold: whether the AppState listener is registered, the native calls that
  were issued and have not settled, every native call issued so far, and every call of
  \<open>onMeasure\<close> so far (the last two oldest first).
\<close>

record HookState =
  quality_state :: "NetworkQuality option"
  measurement_state :: "NetworkMeasurement option"
  isLoading :: bool
  error :: "string option"
  lastMeasuredAt :: "jsnumber option"
  isMeasuringRef :: bool

record Session = HookState +
  subscribed :: bool
  inFlight :: "MeasureOptions list"
  nativeCalls :: "MeasureOptions list"
  onMeasureCalls :: "(NetworkQualityResult option \<times> string option) list"

definition init_session :: Session where
  "init_session =
     \<lparr> quality_state = None, measurement_state = None, isLoading = False, error = None,
       lastMeasuredAt = None, isMeasuringRef = False,
       subscribed = False, inFlight = [], nativeCalls = [], onMeasureCalls = [] \<rparr>"

text \<open>One action per statement of the hook that writes or calls something.\<close>

datatype action =
    SetQuality "NetworkQuality option"
  | SetMeasurement "NetworkMeasurement option"
  | SetIsLoading bool
  | SetError "string option"
  | SetLastMeasuredAt "jsnumber option"
  | SetIsMeasuringRef bool
  | MeasureNetwork MeasureOptions
  | OnMeasure "NetworkQualityResult option" "string option"
  | AddEventListener
  | RemoveSubscription

fun exec :: "action \<Rightarrow> Session \<Rightarrow> Session" where
  "exec (SetQuality q) s = s\<lparr>quality_state := q\<rparr>"
| "exec (SetMeasurement m) s = s\<lparr>measurement_state := m\<rparr>"
| "exec (SetIsLoading b) s = s\<lparr>isLoading := b\<rparr>"
| "exec (SetError e) s = s\<lparr>error := e\<rparr>"
| "exec (SetLastMeasuredAt t) s = s\<lparr>lastMeasuredAt := t\<rparr>"
| "exec (SetIsMeasuringRef b) s = s\<lparr>isMeasuringRef := b\<rparr>"
| "exec (MeasureNetwork opts) s =
     s\<lparr>inFlight := inFlight s @ [opts], nativeCalls := nativeCalls s @ [opts]\<rparr>"
| "exec (OnMeasure r e) s = s\<lparr>onMeasureCalls := onMeasureCalls s @ [(r, e)]\<rparr>"
| "exec AddEventListener s = s\<lparr>subscribed := True\<rparr>"
| "exec RemoveSubscription s = s\<lparr>subscribed := False\<rparr>"

fun run :: "action list \<Rightarrow> Session \<Rightarrow> Session" where
  "run [] s = s"
| "run (a # as) s = run as (exec a s)"

text \<open>
  \<open>performMeasurement\<close> up to its \<open>await\<close>: nothing when the flag is set, otherwise
  the flag, the two state writes and the native call with the defaulted options.
\<close>

definition performMeasurement_begin ::
  "UseNetworkQualityOptions option \<Rightarrow> Session \<Rightarrow> action list" where
  "performMeasurement_begin options s =
     (if isMeasuringRef s then []
      else [SetIsMeasuringRef True, SetIsLoading True, SetError None,
            MeasureNetwork \<lparr> extended = Some (nullish (chain options extended) True),
                             timeoutMs = Some (nullish (chain options timeoutMs) (Num 3000)) \<rparr>])"

text \<open>\<open>options?.onMeasure?.(r, e)\<close>: the call, if a callback is there, and what it throws.\<close>

definition invoke_onMeasure ::
  "UseNetworkQualityOptions option \<Rightarrow> NetworkQualityResult option \<Rightarrow> string option
     \<Rightarrow> action list \<times> js_thrown option" where
  "invoke_onMeasure options r e =
     (case chain options onMeasure of
        None \<Rightarrow> ([], None)
      | Some cb \<Rightarrow> ([OnMeasure r e], cb r e))"

text \<open>
  The rest of the \<open>try\<close> block, from the outcome of the awaited call: its actions and
  what leaves it as an exception. \<open>now\<close> is what \<open>Date.now()\<close> returns.
\<close>

definition try_block ::
  "UseNetworkQualityOptions option \<Rightarrow> jsnumber \<Rightarrow> js_thrown + NetworkQualityResult
     \<Rightarrow> action list \<times> js_thrown option" where
  "try_block options now outcome =
     (case outcome of
        Inl err \<Rightarrow> ([], Some err)
      | Inr result \<Rightarrow>
          ([SetQuality (Some (quality result)), SetMeasurement (Some (measurement result)),
            SetLastMeasuredAt (Some now)] @ fst (invoke_onMeasure options (Some result) None),
           snd (invoke_onMeasure options (Some result) None)))"

definition errorMsg_of :: "js_thrown \<Rightarrow> string" where
  "errorMsg_of err = (case err of ErrorObject message \<Rightarrow> message | OtherValue text \<Rightarrow> text)"

text \<open>
  The \<open>catch\<close> block. If the callback throws here, the \<open>finally\<close> block still runs and
  the returned promise rejects; the actions are the same.
\<close>

definition catch_block :: "UseNetworkQualityOptions option \<Rightarrow> js_thrown \<Rightarrow> action list" where
  "catch_block options err =
     [SetError (Some (errorMsg_of err)), SetQuality None]
       @ fst (invoke_onMeasure options None (Some (errorMsg_of err)))"

definition finally_block :: "action list" where
  "finally_block = [SetIsLoading False, SetIsMeasuringRef False]"

text \<open>
  \<open>performMeasurement\<close> from the point where the awaited call has settled: what it
  writes and calls, in order. The value its promise settles with is not modelled.
\<close>

definition performMeasurement_settled ::
  "UseNetworkQualityOptions option \<Rightarrow> jsnumber \<Rightarrow> js_thrown + NetworkQualityResult
     \<Rightarrow> action list" where
  "performMeasurement_settled options now outcome =
     fst (try_block options now outcome)
       @ (case snd (try_block options now outcome) of
            None \<Rightarrow> []
          | Some err \<Rightarrow> catch_block options err)
       @ finally_block"

text \<open>The two effects, in the order the hook declares them, and the listener.\<close>

definition mount_effect :: "UseNetworkQualityOptions option \<Rightarrow> Session \<Rightarrow> action list" where
  "mount_effect options s =
     (if chain options measureOnMount \<noteq> Some False then performMeasurement_begin options s
      else [])"

definition resume_effect :: "UseNetworkQualityOptions option \<Rightarrow> action list" where
  "resume_effect options =
     (if \<not> truthy (chain options measureOnResume) then [] else [AddEventListener])"

definition appState_listener ::
  "UseNetworkQualityOptions option \<Rightarrow> string \<Rightarrow> Session \<Rightarrow> action list" where
  "appState_listener options state s =
     (if state = ''active'' then performMeasurement_begin options s else [])"

text \<open>
  What happens to a session: the component mounts, the consumer calls \<open>refresh\<close>, the
  application state changes, the oldest native call in flight settles (rejecting with a
  reason or resolving with a record) while the clock reads \<open>now\<close>, the component
  unmounts. The outcome of \<open>measureNetworkQuality\<close> is computed by the accessor above
  from the native outcome.
\<close>

datatype event =
    Mount
  | Refresh
  | AppStateChange string
  | Settled "js_thrown + NetworkMeasurement" jsnumber
  | Unmount

fun step :: "UseNetworkQualityOptions option \<Rightarrow> Session \<Rightarrow> event \<Rightarrow> Session" where
  "step options s Mount = run (resume_effect options) (run (mount_effect options s) s)"
| "step options s Refresh = run (performMeasurement_begin options s) s"
| "step options s (AppStateChange state) =
     (if subscribed s then run (appState_listener options state s) s else s)"
| "step options s (Settled outcome now) =
     (case inFlight s of
        [] \<Rightarrow> s
      | opts # rest \<Rightarrow>
          run (performMeasurement_settled options now
                 (measureNetworkQuality (\<lambda>_. outcome) (Some opts)))
              (s\<lparr>inFlight := rest\<rparr>))"
| "step options s Unmount = (if subscribed s then run [RemoveSubscription] s else s)"

fun steps :: "UseNetworkQualityOptions option \<Rightarrow> Session \<Rightarrow> event list \<Rightarrow> Session" where
  "steps options s [] = s"
| "steps options s (e # es) = steps options (step options s e) es"

text \<open>
  What holds of every session reached from the initial one: the flag is set exactly
  while a native call is in flight, at most one call is in flight, and \<open>error\<close> is
  null while the flag is set.
\<close>

definition session_inv :: "Session \<Rightarrow> bool" where
  "session_inv s =
     ((isMeasuringRef s \<longleftrightarrow> inFlight s \<noteq> []) \<and> length (inFlight s) \<le> 1
      \<and> (isMeasuringRef s \<longrightarrow> error s = None))"

section \<open>Concrete records and options\<close>

definition record_excellent :: NetworkMeasurement where
  "record_excellent =
     \<lparr> timestamp = Num 1700000000000, networkType = ''wifi'', cellularGeneration = ''unknown'',
       wifiRssi = Some (Num (-50)), cellularRssi = None,
       latencyMs = Some (Num 30), jitterMs = Some (Num 2),
       downlinkMbps = Some (Num 25), packetLossPercent = Some (Num 0.2),
       isConnected = True, failureReason = None \<rparr>"

definition record_boundary :: NetworkMeasurement where
  "record_boundary =
     record_excellent\<lparr>latencyMs := Some (Num 50), downlinkMbps := Some (Num 20),
                       packetLossPercent := Some (Num 1)\<rparr>"

definition record_all_absent :: NetworkMeasurement where
  "record_all_absent =
     record_excellent\<lparr>latencyMs := None, jitterMs := None, downlinkMbps := None,
                       packetLossPercent := None, failureReason := Some ''timeout''\<rparr>"

definition record_scenario4 :: NetworkMeasurement where
  "record_scenario4 =
     record_excellent\<lparr>latencyMs := None, jitterMs := None, downlinkMbps := Some (Num 10),
                       packetLossPercent := Some (Num 0.5)\<rparr>"

definition record_not_extended :: NetworkMeasurement where
  "record_not_extended = record_excellent\<lparr>jitterMs := None, packetLossPercent := None\<rparr>"

definition record_offline :: NetworkMeasurement where
  "record_offline =
     record_excellent\<lparr>networkType := ''none'', isConnected := False,
                       failureReason := Some ''offline''\<rparr>"

definition options_resume :: "bool option \<Rightarrow> UseNetworkQualityOptions" where
  "options_resume r =
     \<lparr> extended = None, timeoutMs = None, measureOnResume = r, measureOnMount = None,
       onMeasure = None \<rparr>"

definition callback_quiet :: onMeasure_callback where
  "callback_quiet r e = None"

definition callback_throwing :: onMeasure_callback where
  "callback_throwing r e =
     (case r of None \<Rightarrow> None | Some _ \<Rightarrow> Some (ErrorObject ''boom''))"

definition options_callback :: "onMeasure_callback \<Rightarrow> UseNetworkQualityOptions" where
  "options_callback cb =
     \<lparr> extended = None, timeoutMs = None, measureOnResume = None, measureOnMount = Some False,
       onMeasure = Some cb \<rparr>"

definition native_fixed ::
  "js_thrown + NetworkMeasurement \<Rightarrow> MeasureOptions option \<Rightarrow> js_thrown + NetworkMeasurement" where
  "native_fixed outcome options = outcome"

section \<open>Properties of the scorer\<close>

lemma nullish_simps: "nullish None d = d" "nullish (Some v) d = v"
  by (simp_all add: nullish_def)

lemma typedMeasurement_id: "typedMeasurement m = m"
  by (simp add: typedMeasurement_def)

text \<open>
  C3: a record with \<open>isConnected = false\<close> scores offline, whatever its other fields
  hold, present or absent.
\<close>

theorem C3_disconnected_offline:
  "\<not> isConnected m \<Longrightarrow> scoreNetworkQuality m = Offline"
  by (simp add: scoreNetworkQuality_def)

text \<open>
  Witness for C3: the offline record, with every probe field present.
\<close>

theorem C3_witness:
  "\<not> isConnected record_offline \<and> scoreNetworkQuality record_offline = Offline"
  using C3_disconnected_offline [of record_offline]
  by (simp add: record_offline_def record_excellent_def)

text \<open>
  C4: a connected record without latency, downlink and loss scores as the record with
  999 ms, 0 Mbps and 100 % in their place does, and that score is poor, so it is none
  of excellent, good, fair and offline.
\<close>

theorem C4_all_absent_poor:
  assumes "isConnected m" and "latencyMs m = None" and "downlinkMbps m = None"
    and "packetLossPercent m = None"
  shows "scoreNetworkQuality m =
           scoreNetworkQuality (m\<lparr>latencyMs := Some (Num 999), downlinkMbps := Some (Num 0),
                                    packetLossPercent := Some (Num 100)\<rparr>)
         \<and> scoreNetworkQuality m = Poor
         \<and> scoreNetworkQuality m \<notin> {Excellent, Good, Fair, Offline}"
  using assms by (simp add: scoreNetworkQuality_def nullish_simps js_gt_def)

text \<open>
  Witness for C4: the connected record of a run that timed out with nothing measured.
\<close>

theorem C4_witness:
  "isConnected record_all_absent \<and> latencyMs record_all_absent = None
   \<and> downlinkMbps record_all_absent = None \<and> packetLossPercent record_all_absent = None
   \<and> scoreNetworkQuality record_all_absent = Poor"
proof -
  have h: "isConnected record_all_absent" "latencyMs record_all_absent = None"
    "downlinkMbps record_all_absent = None" "packetLossPercent record_all_absent = None"
    by (simp_all add: record_all_absent_def record_excellent_def)
  from C4_all_absent_poor [OF h] h show ?thesis by blast
qed

text \<open>
  C5: a connected record with latency below 50 ms, downlink above 20 Mbps and loss below
  1 %, all three present, scores excellent; the record with latency 50, downlink 20 and
  loss 1 scores good.
\<close>

theorem C5_excellent_strict_edges:
  "(isConnected m \<and> latencyMs m = Some l \<and> downlinkMbps m = Some d
      \<and> packetLossPercent m = Some p
      \<and> js_lt l (Num 50) \<and> js_gt d (Num 20) \<and> js_lt p (Num 1)
     \<longrightarrow> scoreNetworkQuality m = Excellent)
   \<and> (isConnected m \<and> latencyMs m = Some (Num 50) \<and> downlinkMbps m = Some (Num 20)
      \<and> packetLossPercent m = Some (Num 1)
     \<longrightarrow> scoreNetworkQuality m = Good)"
  by (simp add: scoreNetworkQuality_def nullish_simps js_gt_def)

text \<open>
  Witness for C5: the record of scenario 1 (30 ms, 25 Mbps, 0.2 %) and the boundary record.
\<close>

theorem C5_witness:
  "js_lt (Num 30) (Num 50) \<and> js_gt (Num 25) (Num 20) \<and> js_lt (Num 0.2) (Num 1)
   \<and> scoreNetworkQuality record_excellent = Excellent
   \<and> scoreNetworkQuality record_boundary = Good"
  using C5_excellent_strict_edges [of record_excellent "Num 30" "Num 25" "Num 0.2"]
    C5_excellent_strict_edges [of record_boundary]
  by (simp add: record_boundary_def record_excellent_def js_gt_def)

text \<open>
  C6, as amended: a connected record with latency absent, downlink 10 Mbps and loss
  0.5 % scores as the record with latency 999 ms does, which is poor. Its downlink and
  loss alone meet the thresholds of good (at least 5 Mbps, below 5 %), not those of
  excellent: with any latency below 100 ms in place the record scores good.
\<close>

theorem C6_absent_latency_poor:
  assumes "isConnected m" and "latencyMs m = None" and "downlinkMbps m = Some (Num 10)"
    and "packetLossPercent m = Some (Num 0.5)"
  shows "scoreNetworkQuality m = scoreNetworkQuality (m\<lparr>latencyMs := Some (Num 999)\<rparr>)
         \<and> scoreNetworkQuality m = Poor
         \<and> (\<forall>l. js_lt l (Num 100) \<longrightarrow> scoreNetworkQuality (m\<lparr>latencyMs := Some l\<rparr>) = Good)"
  using assms by (simp add: scoreNetworkQuality_def nullish_simps js_gt_def)

text \<open>
  Witness for C6: the record of scenario 4, and the same record with latency 30 ms.
\<close>

theorem C6_witness:
  "isConnected record_scenario4 \<and> latencyMs record_scenario4 = None
   \<and> scoreNetworkQuality record_scenario4 = Poor
   \<and> scoreNetworkQuality (record_scenario4\<lparr>latencyMs := Some (Num 30)\<rparr>) = Good"
proof -
  have h: "isConnected record_scenario4" "latencyMs record_scenario4 = None"
    "downlinkMbps record_scenario4 = Some (Num 10)"
    "packetLossPercent record_scenario4 = Some (Num 0.5)"
    by (simp_all add: record_scenario4_def record_excellent_def)
  have l: "js_lt (Num 30) (Num 100)" by simp
  from C6_absent_latency_poor [OF h] h l show ?thesis by blast
qed

text \<open>
  Counterexample for C6 as stated: the record of scenario 4 does not both score poor and
  have downlink and loss within the bounds of excellent, because 10 Mbps is not above
  20 Mbps.
\<close>

theorem C6_counterexample:
  "\<not> (scoreNetworkQuality record_scenario4 = Poor
       \<and> js_gt (nullish (downlinkMbps record_scenario4) (Num 0)) (Num 20)
       \<and> js_lt (nullish (packetLossPercent record_scenario4) (Num 100)) (Num 1))"
  by (simp add: record_scenario4_def record_excellent_def nullish_simps js_gt_def)

text \<open>
  C8: whenever the native call resolves, the one-shot accessor returns a result, and in
  every result it returns, for every options value, \<open>quality\<close> is the scorer applied
  to \<open>measurement\<close> of that same result.
\<close>

theorem C8_result_consistent:
  "(\<forall>m. measureNetwork options = Inr m
        \<longrightarrow> (\<exists>r. measureNetworkQuality measureNetwork options = Inr r))
   \<and> (\<forall>r. measureNetworkQuality measureNetwork options = Inr r
        \<longrightarrow> quality r = scoreNetworkQuality (measurement r))"
  by (auto simp: measureNetworkQuality_def measureNetworkQuality_resolved_def split: sum.splits)

text \<open>
  Witness for C8: the native call resolves with the record of scenario 4.
\<close>

theorem C8_witness:
  "\<exists>r. measureNetworkQuality (native_fixed (Inr record_scenario4)) None = Inr r
       \<and> quality r = scoreNetworkQuality (measurement r)"
  using C8_result_consistent [of "native_fixed (Inr record_scenario4)" None]
  by (auto simp: native_fixed_def)

text \<open>
  C9: a connected record without packet loss scores as the record with 100 % loss does,
  which is poor whatever its latency and downlink are; so the one-shot accessor, when
  the native call resolves with such a record, returns poor.
\<close>

theorem C9_absent_loss_poor:
  assumes "isConnected m" and "packetLossPercent m = None"
  shows "scoreNetworkQuality m = scoreNetworkQuality (m\<lparr>packetLossPercent := Some (Num 100)\<rparr>)
         \<and> scoreNetworkQuality m = Poor
         \<and> (measureNetwork options = Inr m
              \<longrightarrow> measureNetworkQuality measureNetwork options
                    = Inr \<lparr>quality = Poor, measurement = m\<rparr>)"
  using assms
  by (simp add: scoreNetworkQuality_def nullish_simps measureNetworkQuality_def
      measureNetworkQuality_resolved_def typedMeasurement_id)

text \<open>
  Witness for C9: a connected record with 30 ms and 25 Mbps and no loss figure, as a
  call with \<open>extended = false\<close> would give.
\<close>

theorem C9_witness:
  "isConnected record_not_extended \<and> packetLossPercent record_not_extended = None
   \<and> latencyMs record_not_extended = Some (Num 30)
   \<and> downlinkMbps record_not_extended = Some (Num 25)
   \<and> scoreNetworkQuality record_not_extended = Poor
   \<and> measureNetworkQuality (native_fixed (Inr record_not_extended))
        (Some \<lparr>extended = Some False, timeoutMs = None\<rparr>)
      = Inr \<lparr>quality = Poor, measurement = record_not_extended\<rparr>"
proof -
  have h: "isConnected record_not_extended" "packetLossPercent record_not_extended = None"
    by (simp_all add: record_not_extended_def record_excellent_def)
  have v: "latencyMs record_not_extended = Some (Num 30)"
    "downlinkMbps record_not_extended = Some (Num 25)"
    by (simp_all add: record_not_extended_def record_excellent_def)
  have n: "native_fixed (Inr record_not_extended)
             (Some \<lparr>extended = Some False, timeoutMs = None\<rparr>) = Inr record_not_extended"
    by (simp add: native_fixed_def)
  from C9_absent_loss_poor [OF h, of "native_fixed (Inr record_not_extended)"
      "Some \<lparr>extended = Some False, timeoutMs = None\<rparr>"] h v n
  show ?thesis by blast
qed

section \<open>Properties of the watch session\<close>

subsection \<open>What the parts of performMeasurement do to a session\<close>

lemma run_append: "run (as @ bs) s = run bs (run as s)"
  by (induction as arbitrary: s) simp_all

lemma exec_keeps_flag:
  "\<forall>b. a \<noteq> SetIsMeasuringRef b \<Longrightarrow> isMeasuringRef (exec a s) = isMeasuringRef s"
  by (cases a) auto

lemma run_keeps_flag:
  "\<forall>a \<in> set as. \<forall>b. a \<noteq> SetIsMeasuringRef b \<Longrightarrow>
     isMeasuringRef (run as s) = isMeasuringRef s"
  by (induction as arbitrary: s) (simp_all add: exec_keeps_flag)

lemma settled_butlast:
  "performMeasurement_settled options now outcome
     = butlast (performMeasurement_settled options now outcome) @ [SetIsMeasuringRef False]"
  by (simp add: performMeasurement_settled_def finally_block_def butlast_append)

lemma settled_butlast_no_flag:
  "\<forall>a \<in> set (butlast (performMeasurement_settled options now outcome)).
     \<forall>b. a \<noteq> SetIsMeasuringRef b"
  by (auto simp: performMeasurement_settled_def finally_block_def butlast_append try_block_def
      catch_block_def invoke_onMeasure_def split: sum.splits option.splits)

lemma proper_prefix:
  assumes "ys @ [x] = pre @ post" and "post \<noteq> []"
  shows "set pre \<subseteq> set ys"
proof (cases post rule: rev_cases)
  case Nil
  with assms show ?thesis by simp
next
  case (snoc post' y)
  with assms have "ys = pre @ post'" by simp
  then show ?thesis by auto
qed

lemma flag_set_before_last:
  assumes "isMeasuringRef s" and "performMeasurement_settled options now outcome = pre @ post"
    and "post \<noteq> []"
  shows "isMeasuringRef (run pre s)"
proof -
  from assms(2) settled_butlast [of options now outcome]
  have "butlast (performMeasurement_settled options now outcome) @ [SetIsMeasuringRef False]
          = pre @ post"
    by simp
  from proper_prefix [OF this assms(3)] settled_butlast_no_flag [of options now outcome]
  have "\<forall>a \<in> set pre. \<forall>b. a \<noteq> SetIsMeasuringRef b" by blast
  from run_keeps_flag [OF this] assms(1) show ?thesis by simp
qed

lemma flag_cleared_at_end:
  "\<not> isMeasuringRef (run (performMeasurement_settled options now outcome) s)"
  by (simp add: performMeasurement_settled_def finally_block_def run_append)

lemma begin_when_set: "isMeasuringRef s \<Longrightarrow> performMeasurement_begin options s = []"
  by (simp add: performMeasurement_begin_def)

lemma refresh_sets_flag: "isMeasuringRef (step options s Refresh)"
  by (simp add: performMeasurement_begin_def)

lemma refresh_when_set: "isMeasuringRef s \<Longrightarrow> step options s Refresh = s"
  by (simp add: begin_when_set)

lemma exec_nativeCalls: "(\<forall>opts. a \<noteq> MeasureNetwork opts) \<Longrightarrow> nativeCalls (exec a s) = nativeCalls s"
  by (cases a) simp_all

lemma run_nativeCalls:
  "\<forall>a \<in> set as. \<forall>opts. a \<noteq> MeasureNetwork opts \<Longrightarrow> nativeCalls (run as s) = nativeCalls s"
  by (induction as arbitrary: s) (simp_all add: exec_nativeCalls)

lemma settled_no_native:
  "\<forall>a \<in> set (performMeasurement_settled options now outcome). \<forall>opts. a \<noteq> MeasureNetwork opts"
  by (auto simp: performMeasurement_settled_def try_block_def catch_block_def finally_block_def
      invoke_onMeasure_def split: sum.splits option.splits)

lemma settle_nativeCalls: "nativeCalls (step options s (Settled outcome now)) = nativeCalls s"
  by (simp add: run_nativeCalls [OF settled_no_native] split: list.splits)

lemma settled_Inl:
  "performMeasurement_settled options now (Inl err) = catch_block options err @ finally_block"
  by (simp add: performMeasurement_settled_def try_block_def)

lemma measureNetworkQuality_const:
  "measureNetworkQuality (\<lambda>_. Inl err) opts = Inl err"
  "measureNetworkQuality (\<lambda>_. Inr m) opts = Inr (measureNetworkQuality_resolved m)"
  by (simp_all add: measureNetworkQuality_def)

lemma run_catch_finally:
  "run (catch_block options err @ finally_block) s =
     s\<lparr>error := Some (errorMsg_of err), quality_state := None, isLoading := False,
        isMeasuringRef := False,
        onMeasureCalls := onMeasureCalls s
          @ (case chain options onMeasure of None \<Rightarrow> []
             | Some cb \<Rightarrow> [(None, Some (errorMsg_of err))])\<rparr>"
  by (cases "chain options onMeasure")
     (simp_all add: catch_block_def finally_block_def invoke_onMeasure_def)

lemma run_begin:
  "\<not> isMeasuringRef s \<Longrightarrow>
     step options s Refresh =
       s\<lparr>isMeasuringRef := True, isLoading := True, error := None,
          inFlight := inFlight s
            @ [\<lparr> extended = Some (nullish (chain options extended) True),
                  timeoutMs = Some (nullish (chain options timeoutMs) (Num 3000)) \<rparr>],
          nativeCalls := nativeCalls s
            @ [\<lparr> extended = Some (nullish (chain options extended) True),
                  timeoutMs = Some (nullish (chain options timeoutMs) (Num 3000)) \<rparr>]\<rparr>"
  by (simp add: performMeasurement_begin_def)

lemma step_settled_Inl:
  "inFlight s = opts # rest \<Longrightarrow>
     step options s (Settled (Inl err) now)
       = run (catch_block options err @ finally_block) (s\<lparr>inFlight := rest\<rparr>)"
  by (simp add: measureNetworkQuality_const settled_Inl)

lemma step_settled_Inr:
  "inFlight s = opts # rest \<Longrightarrow>
     step options s (Settled (Inr m) now)
       = run (performMeasurement_settled options now (Inr (measureNetworkQuality_resolved m)))
           (s\<lparr>inFlight := rest\<rparr>)"
  by (simp add: measureNetworkQuality_const)

lemma run_settled_Inr:
  "run (performMeasurement_settled options now (Inr r)) s =
     (case chain options onMeasure of
        None \<Rightarrow>
          s\<lparr>quality_state := Some (quality r), measurement_state := Some (measurement r),
             lastMeasuredAt := Some now, isLoading := False, isMeasuringRef := False\<rparr>
      | Some cb \<Rightarrow>
          (case cb (Some r) None of
             None \<Rightarrow>
               s\<lparr>quality_state := Some (quality r), measurement_state := Some (measurement r),
                  lastMeasuredAt := Some now, isLoading := False, isMeasuringRef := False,
                  onMeasureCalls := onMeasureCalls s @ [(Some r, None)]\<rparr>
           | Some thrown \<Rightarrow>
               s\<lparr>quality_state := None, measurement_state := Some (measurement r),
                  lastMeasuredAt := Some now, isLoading := False, isMeasuringRef := False,
                  error := Some (errorMsg_of thrown),
                  onMeasureCalls := onMeasureCalls s
                    @ [(Some r, None), (None, Some (errorMsg_of thrown))]\<rparr>))"
proof (cases "chain options onMeasure")
  case None
  then show ?thesis
    by (simp add: performMeasurement_settled_def try_block_def invoke_onMeasure_def
        finally_block_def)
next
  case (Some cb)
  show ?thesis
  proof (cases "cb (Some r) None")
    case None
    with Some show ?thesis
      by (simp add: performMeasurement_settled_def try_block_def invoke_onMeasure_def
          finally_block_def)
  next
    case (Some thrown)
    with \<open>chain options onMeasure = Some cb\<close> show ?thesis
      by (simp add: performMeasurement_settled_def try_block_def invoke_onMeasure_def
          finally_block_def catch_block_def)
  qed
qed

lemma init_fields:
  "\<not> isMeasuringRef init_session" "inFlight init_session = []"
  "nativeCalls init_session = []" "onMeasureCalls init_session = []"
  "\<not> subscribed init_session"
  by (simp_all add: init_session_def)

lemma begin_inv:
  assumes "session_inv s"
  shows "session_inv (run (performMeasurement_begin options s) s)"
proof (cases "isMeasuringRef s")
  case True
  with assms show ?thesis by (simp add: begin_when_set)
next
  case False
  with assms have "inFlight s = []" by (simp add: session_inv_def)
  with False show ?thesis
    by (simp add: performMeasurement_begin_def session_inv_def)
qed

lemma subscription_inv: "session_inv (s\<lparr>subscribed := b\<rparr>) = session_inv s"
  by (simp add: session_inv_def)

lemma settled_inv:
  assumes "session_inv s"
  shows "session_inv (step options s (Settled outcome now))"
proof (cases "inFlight s")
  case Nil
  with assms show ?thesis by simp
next
  case (Cons opts rest)
  with assms have rest: "rest = []" by (simp add: session_inv_def)
  show ?thesis
  proof (cases outcome)
    case (Inl err)
    show ?thesis
      unfolding Inl step_settled_Inl [OF Cons] run_catch_finally
      by (simp add: session_inv_def rest)
  next
    case (Inr m)
    show ?thesis
      unfolding Inr step_settled_Inr [OF Cons] run_settled_Inr
      by (simp add: session_inv_def rest split: option.splits)
  qed
qed

lemma step_inv: "session_inv s \<Longrightarrow> session_inv (step options s e)"
proof (cases e)
  case Mount
  assume "session_inv s"
  from begin_inv [OF this, of options] \<open>session_inv s\<close> Mount show ?thesis
    by (simp add: mount_effect_def resume_effect_def subscription_inv)
next
  case Refresh
  assume "session_inv s"
  from begin_inv [OF this, of options] Refresh show ?thesis by simp
next
  case (AppStateChange state)
  assume "session_inv s"
  from begin_inv [OF this, of options] \<open>session_inv s\<close> AppStateChange show ?thesis
    by (simp add: appState_listener_def)
next
  case (Settled outcome now)
  assume "session_inv s"
  from settled_inv [OF this] Settled show ?thesis by simp
next
  case Unmount
  assume "session_inv s"
  with Unmount show ?thesis by (simp add: subscription_inv)
qed

lemma steps_inv: "session_inv s \<Longrightarrow> session_inv (steps options s es)"
  by (induction es arbitrary: s) (simp_all add: step_inv)

lemma init_inv: "session_inv init_session"
  by (simp add: session_inv_def init_session_def)

lemma in_flight_shape:
  assumes "s = steps options init_session es" and "isMeasuringRef s"
  shows "\<exists>opts. inFlight s = [opts]" and "error s = None"
proof -
  from steps_inv [OF init_inv, of options es] assms(1) have inv: "session_inv s" by simp
  with assms(2) have "inFlight s \<noteq> []" and "length (inFlight s) \<le> 1"
    by (simp_all add: session_inv_def)
  then show "\<exists>opts. inFlight s = [opts]" by (cases "inFlight s") simp_all
  from inv assms(2) show "error s = None" by (simp add: session_inv_def)
qed

lemmas session_defs = init_session_def performMeasurement_begin_def performMeasurement_settled_def
  try_block_def catch_block_def finally_block_def invoke_onMeasure_def chain_def truthy_def
  nullish_def measureNetworkQuality_def measureNetworkQuality_resolved_def typedMeasurement_id
  mount_effect_def resume_effect_def appState_listener_def errorMsg_of_def

subsection \<open>The resume trigger\<close>

text \<open>
  The listener is registered only when \<open>measureOnResume\<close> is truthy. A session whose
  options leave it out, or that has no options at all, never has the listener, so no
  change of the application state does anything to it.
\<close>

lemma step_unsubscribed:
  "\<not> truthy (chain options measureOnResume) \<Longrightarrow> \<not> subscribed s
     \<Longrightarrow> \<not> subscribed (step options s e)"
proof (cases e)
  case Mount
  assume "\<not> truthy (chain options measureOnResume)" and "\<not> subscribed s"
  with Mount show ?thesis
    by (simp add: resume_effect_def mount_effect_def performMeasurement_begin_def)
next
  case Refresh
  assume "\<not> subscribed s"
  with Refresh show ?thesis by (simp add: performMeasurement_begin_def)
next
  case (AppStateChange state)
  assume "\<not> subscribed s"
  with AppStateChange show ?thesis by simp
next
  case (Settled outcome now)
  assume u: "\<not> subscribed s"
  show ?thesis
  proof (cases "inFlight s")
    case Nil
    with Settled u show ?thesis by simp
  next
    case (Cons opts rest)
    show ?thesis
    proof (cases outcome)
      case (Inl err)
      with Settled Cons u show ?thesis
        by (simp only: step_settled_Inl [OF Cons] run_catch_finally) simp
    next
      case (Inr m)
      with Settled Cons u show ?thesis
        by (simp only: step_settled_Inr [OF Cons] run_settled_Inr)
           (simp split: option.splits)
    qed
  qed
next
  case Unmount
  assume "\<not> subscribed s"
  with Unmount show ?thesis by simp
qed

lemma steps_unsubscribed:
  "\<not> truthy (chain options measureOnResume) \<Longrightarrow> \<not> subscribed s
     \<Longrightarrow> \<not> subscribed (steps options s es)"
  by (induction es arbitrary: s) (simp_all add: step_unsubscribed)

lemma resume_without_option_is_noop:
  assumes "\<not> truthy (chain options measureOnResume)"
  shows "step options (steps options init_session es) (AppStateChange state)
           = steps options init_session es"
  using steps_unsubscribed [OF assms, of init_session es] by (simp add: init_session_def)

text \<open>
  C1, on the code: a session mounted with no options, or with options that leave
  \<open>measureOnResume\<close> out, has no listener after its mount run has settled, and the
  application becoming active leaves it as it is: the only native call is the one of the
  mount. With \<open>measureOnResume = true\<close> the same transition issues a second native
  call, and with \<open>measureOnResume = false\<close> it issues none.
\<close>

theorem C1_resume_default_not_subscribed:
  "\<not> subscribed (steps None init_session [Mount, Settled (Inr record_excellent) (Num 5)])
   \<and> step None (steps None init_session [Mount, Settled (Inr record_excellent) (Num 5)])
        (AppStateChange ''active'')
      = steps None init_session [Mount, Settled (Inr record_excellent) (Num 5)]
   \<and> nativeCalls (steps None init_session
        [Mount, Settled (Inr record_excellent) (Num 5), AppStateChange ''active''])
      = [\<lparr>extended = Some True, timeoutMs = Some (Num 3000)\<rparr>]
   \<and> nativeCalls (steps (Some (options_resume None)) init_session
        [Mount, Settled (Inr record_excellent) (Num 5), AppStateChange ''active''])
      = [\<lparr>extended = Some True, timeoutMs = Some (Num 3000)\<rparr>]
   \<and> nativeCalls (steps (Some (options_resume (Some True))) init_session
        [Mount, Settled (Inr record_excellent) (Num 5), AppStateChange ''active''])
      = [\<lparr>extended = Some True, timeoutMs = Some (Num 3000)\<rparr>,
         \<lparr>extended = Some True, timeoutMs = Some (Num 3000)\<rparr>]
   \<and> nativeCalls (steps (Some (options_resume (Some False))) init_session
        [Mount, Settled (Inr record_excellent) (Num 5), AppStateChange ''active''])
      = [\<lparr>extended = Some True, timeoutMs = Some (Num 3000)\<rparr>]"
  by (simp add: session_defs options_resume_def)

subsection \<open>Mutual exclusion\<close>

text \<open>
  C2: on a session with no run in flight, two \<open>refresh\<close> calls in a row issue
  exactly one native call: the first sets the flag, the second finds it set and leaves
  the session as it is, and the call count is still one more when the run has settled.
  While the run's completion is handled, whatever its outcome, the flag stays set before
  every statement of the handling, and is cleared by the last one.
\<close>

theorem C2_refresh_mutual_exclusion:
  assumes "\<not> isMeasuringRef s"
  shows "nativeCalls (steps options s [Refresh, Refresh])
           = nativeCalls s @ [\<lparr> extended = Some (nullish (chain options extended) True),
                                  timeoutMs = Some (nullish (chain options timeoutMs) (Num 3000)) \<rparr>]
         \<and> isMeasuringRef (step options s Refresh)
         \<and> steps options s [Refresh, Refresh] = step options s Refresh
         \<and> nativeCalls (steps options s [Refresh, Refresh, Settled native_outcome now])
             = nativeCalls (step options s Refresh)
         \<and> (\<forall>s' outcome pre post.
               isMeasuringRef s' \<and> performMeasurement_settled options now outcome = pre @ post
                 \<and> post \<noteq> []
               \<longrightarrow> isMeasuringRef (run pre s'))
         \<and> (\<forall>s' outcome. \<not> isMeasuringRef (run (performMeasurement_settled options now outcome) s'))"
proof -
  have second: "steps options s [Refresh, Refresh] = step options s Refresh"
    using refresh_when_set [OF refresh_sets_flag, of options options s] by simp
  have calls: "nativeCalls (step options s Refresh)
           = nativeCalls s @ [\<lparr> extended = Some (nullish (chain options extended) True),
                                  timeoutMs = Some (nullish (chain options timeoutMs) (Num 3000)) \<rparr>]"
    using assms by (simp add: performMeasurement_begin_def)
  have third: "nativeCalls (steps options s [Refresh, Refresh, Settled native_outcome now])
             = nativeCalls (step options s Refresh)"
    using second settle_nativeCalls [of options "step options s Refresh" native_outcome now]
    by simp
  show ?thesis
    using second calls third refresh_sets_flag [of options s] flag_set_before_last
      flag_cleared_at_end
    by (metis (no_types, lifting))
qed

text \<open>
  Witness for C2: a fresh session without options; the flag is still set after the
  first statement of the success handling.
\<close>

theorem C2_witness:
  "\<not> isMeasuringRef init_session
   \<and> nativeCalls (steps None init_session [Refresh, Refresh])
        = [\<lparr>extended = Some True, timeoutMs = Some (Num 3000)\<rparr>]
   \<and> steps None init_session [Refresh, Refresh] = step None init_session Refresh
   \<and> isMeasuringRef (run [SetQuality (Some Excellent)] (step None init_session Refresh))"
proof -
  have c: "chain None extended = None" "chain None timeoutMs = None"
    by (simp_all add: chain_def)
  have p: "performMeasurement_settled None (Num 5)
             (Inr \<lparr>quality = Excellent, measurement = record_excellent\<rparr>)
           = [SetQuality (Some Excellent)]
               @ [SetMeasurement (Some record_excellent), SetLastMeasuredAt (Some (Num 5)),
                  SetIsLoading False, SetIsMeasuringRef False]"
    by (simp add: performMeasurement_settled_def try_block_def invoke_onMeasure_def chain_def
        finally_block_def)
  have f: "isMeasuringRef (step None init_session Refresh)"
    by (rule refresh_sets_flag)
  note inst = C2_refresh_mutual_exclusion [OF init_fields(1), where options = None
      and now = "Num 5"]
  have a': "nativeCalls (steps None init_session [Refresh, Refresh])
        = [\<lparr>extended = Some True, timeoutMs = Some (Num 3000)\<rparr>]"
    using inst [THEN conjunct1] by (simp add: chain_def nullish_simps init_fields)
  note b = inst [THEN conjunct2, THEN conjunct2, THEN conjunct1]
  note pre = inst [THEN conjunct2, THEN conjunct2, THEN conjunct2, THEN conjunct2,
      THEN conjunct1, rule_format]
  have d: "isMeasuringRef (run [SetQuality (Some Excellent)] (step None init_session Refresh))"
    by (rule pre [where outcome = "Inr \<lparr>quality = Excellent, measurement = record_excellent\<rparr>"
          and post = "[SetMeasurement (Some record_excellent), SetLastMeasuredAt (Some (Num 5)),
                       SetIsLoading False, SetIsMeasuringRef False]"])
       (intro conjI, rule f, rule p, simp)
  from init_fields(1) a' b d show ?thesis by (intro conjI)
qed

subsection \<open>The failure transition\<close>

text \<open>
  Take a session reached from the initial one by any events, with a run in flight,
  whichever trigger started it. When the native call rejects, the session ends with the
  tier cleared, \<open>error\<close> set to the failure description, and \<open>onMeasure\<close>, if
  configured, called once more with \<open>(null, error)\<close>. When the call resolves, with
  any record, and \<open>onMeasure\<close> is absent or returns from the success call, the
  session ends with \<open>error\<close> null and the tier the scorer gives the record.
\<close>

lemma settled_transitions:
  assumes "s = steps options init_session es" and "isMeasuringRef s"
  shows "quality_state (step options s (Settled (Inl err) now)) = None
         \<and> error (step options s (Settled (Inl err) now)) = Some (errorMsg_of err)
         \<and> onMeasureCalls (step options s (Settled (Inl err) now))
             = onMeasureCalls s
                 @ (case chain options onMeasure of
                      None \<Rightarrow> []
                    | Some cb \<Rightarrow> [(None, Some (errorMsg_of err))])
         \<and> (\<forall>m. (\<forall>cb. chain options onMeasure = Some cb
                       \<longrightarrow> cb (Some (measureNetworkQuality_resolved m)) None = None)
                \<longrightarrow> error (step options s (Settled (Inr m) now)) = None
                  \<and> quality_state (step options s (Settled (Inr m) now))
                      = Some (scoreNetworkQuality m))"
proof -
  from in_flight_shape [OF assms] obtain opts where fl: "inFlight s = opts # []"
    and err: "error s = None" by auto
  have a: "quality_state (step options s (Settled (Inl err) now)) = None"
    unfolding step_settled_Inl [OF fl] by (simp add: run_catch_finally)
  have b: "error (step options s (Settled (Inl err) now)) = Some (errorMsg_of err)"
    unfolding step_settled_Inl [OF fl] by (simp add: run_catch_finally)
  have c: "onMeasureCalls (step options s (Settled (Inl err) now))
             = onMeasureCalls s
                 @ (case chain options onMeasure of
                      None \<Rightarrow> []
                    | Some cb \<Rightarrow> [(None, Some (errorMsg_of err))])"
    unfolding step_settled_Inl [OF fl] by (simp add: run_catch_finally)
  have d: "error (step options s (Settled (Inr m) now)) = None
           \<and> quality_state (step options s (Settled (Inr m) now))
               = Some (scoreNetworkQuality m)"
    if "\<forall>cb. chain options onMeasure = Some cb
              \<longrightarrow> cb (Some (measureNetworkQuality_resolved m)) None = None" for m
    unfolding step_settled_Inr [OF fl] run_settled_Inr using that err
    by (auto simp: measureNetworkQuality_resolved_def typedMeasurement_id split: option.splits)
  from a b c d show ?thesis by blast
qed

text \<open>
  An instance: a session mounted with \<open>measureOnMount = false\<close> and a callback that
  returns, then refreshed; the native call rejects with an \<open>Error\<close>, or resolves
  with the record of a run that measured nothing.
\<close>

lemma settled_transitions_example:
  "isMeasuringRef (steps (Some (options_callback callback_quiet)) init_session [Mount, Refresh])
   \<and> quality_state (steps (Some (options_callback callback_quiet)) init_session
        [Mount, Refresh, Settled (Inl (ErrorObject ''native fault'')) (Num 5)]) = None
   \<and> error (steps (Some (options_callback callback_quiet)) init_session
        [Mount, Refresh, Settled (Inl (ErrorObject ''native fault'')) (Num 5)])
      = Some ''native fault''
   \<and> onMeasureCalls (steps (Some (options_callback callback_quiet)) init_session
        [Mount, Refresh, Settled (Inl (ErrorObject ''native fault'')) (Num 5)])
      = [(None, Some ''native fault'')]
   \<and> error (steps (Some (options_callback callback_quiet)) init_session
        [Mount, Refresh, Settled (Inr record_all_absent) (Num 5)]) = None
   \<and> quality_state (steps (Some (options_callback callback_quiet)) init_session
        [Mount, Refresh, Settled (Inr record_all_absent) (Num 5)]) = Some Poor"
proof -
  define s where
    "s = steps (Some (options_callback callback_quiet)) init_session [Mount, Refresh]"
  have fl: "isMeasuringRef s" and calls: "onMeasureCalls s = []"
    unfolding s_def by (simp_all add: session_defs options_callback_def)
  have cb: "chain (Some (options_callback callback_quiet)) onMeasure = Some callback_quiet"
    by (simp add: chain_def options_callback_def)
  have q: "\<forall>cb. chain (Some (options_callback callback_quiet)) onMeasure = Some cb
             \<longrightarrow> cb (Some (measureNetworkQuality_resolved record_all_absent)) None = None"
    by (simp add: cb callback_quiet_def)
  have m: "errorMsg_of (ErrorObject ''native fault'') = ''native fault''"
    by (simp add: errorMsg_of_def)
  have p: "scoreNetworkQuality record_all_absent = Poor"
    by (simp add: scoreNetworkQuality_def record_all_absent_def record_excellent_def
        nullish_simps js_gt_def)
  note inst = settled_transitions [OF s_def fl,
      where err = "ErrorObject ''native fault''" and now = "Num 5"]
  have resolved:
    "error (step (Some (options_callback callback_quiet)) s
        (Settled (Inr record_all_absent) (Num 5))) = None
     \<and> quality_state (step (Some (options_callback callback_quiet)) s
        (Settled (Inr record_all_absent) (Num 5)))
       = Some (scoreNetworkQuality record_all_absent)"
    using inst [THEN conjunct2, THEN conjunct2, THEN conjunct2] q by blast
  have unroll: "steps (Some (options_callback callback_quiet)) init_session [Mount, Refresh, e]
                  = step (Some (options_callback callback_quiet)) s e" for e
    unfolding s_def by simp
  from inst [THEN conjunct1] inst [THEN conjunct2, THEN conjunct1]
    inst [THEN conjunct2, THEN conjunct2, THEN conjunct1] resolved fl calls
  show ?thesis
    unfolding unroll s_def [symmetric]
    by (simp only: cb m p option.case append_Nil)
qed

text \<open>
  C7, on the code: rejection of the native call is not the only condition that surfaces
  an error. The native call resolves with the record of scenario 1 and \<open>onMeasure\<close>
  throws on the success call, which sits inside the \<open>try\<close> block. The \<open>catch\<close>
  block then handles that exception as it handles a rejection: the session ends with
  \<open>error\<close> set and the tier cleared, although the measurement and its time have just
  been stored, and \<open>onMeasure\<close> has been called a second time, with
  \<open>(null, error)\<close>. Only one native call was made, and it did not fail.
\<close>

theorem C7_throwing_callback_surfaces_error:
  "error (steps (Some (options_callback callback_throwing)) init_session
        [Refresh, Settled (Inr record_excellent) (Num 5)]) = Some ''boom''
   \<and> quality_state (steps (Some (options_callback callback_throwing)) init_session
        [Refresh, Settled (Inr record_excellent) (Num 5)]) = None
   \<and> measurement_state (steps (Some (options_callback callback_throwing)) init_session
        [Refresh, Settled (Inr record_excellent) (Num 5)]) = Some record_excellent
   \<and> lastMeasuredAt (steps (Some (options_callback callback_throwing)) init_session
        [Refresh, Settled (Inr record_excellent) (Num 5)]) = Some (Num 5)
   \<and> onMeasureCalls (steps (Some (options_callback callback_throwing)) init_session
        [Refresh, Settled (Inr record_excellent) (Num 5)])
      = [(Some \<lparr>quality = Excellent, measurement = record_excellent\<rparr>, None),
         (None, Some ''boom'')]
   \<and> nativeCalls (steps (Some (options_callback callback_throwing)) init_session
        [Refresh, Settled (Inr record_excellent) (Num 5)])
      = [\<lparr>extended = Some True, timeoutMs = Some (Num 3000)\<rparr>]"
proof -
  have cb: "chain (Some (options_callback callback_throwing)) onMeasure = Some callback_throwing"
    by (simp add: chain_def options_callback_def)
  have th: "callback_throwing (Some r) e = Some (ErrorObject ''boom'')" for r e
    by (simp add: callback_throwing_def)
  have sc: "scoreNetworkQuality record_excellent = Excellent"
    by (simp add: scoreNetworkQuality_def record_excellent_def nullish_simps js_gt_def)
  have s1: "step (Some (options_callback callback_throwing)) init_session Refresh
              = init_session\<lparr>isMeasuringRef := True, isLoading := True, error := None,
                  inFlight := [\<lparr>extended = Some True, timeoutMs = Some (Num 3000)\<rparr>],
                  nativeCalls := [\<lparr>extended = Some True, timeoutMs = Some (Num 3000)\<rparr>]\<rparr>"
    by (simp only: run_begin [OF init_fields(1)])
       (simp add: init_fields chain_def options_callback_def nullish_simps)
  have fl: "inFlight (step (Some (options_callback callback_throwing)) init_session Refresh)
              = \<lparr>extended = Some True, timeoutMs = Some (Num 3000)\<rparr> # []"
    by (simp only: s1) simp
  have "steps (Some (options_callback callback_throwing)) init_session
          [Refresh, Settled (Inr record_excellent) (Num 5)]
        = run (performMeasurement_settled (Some (options_callback callback_throwing)) (Num 5)
                 (Inr (measureNetworkQuality_resolved record_excellent)))
            ((step (Some (options_callback callback_throwing)) init_session Refresh)
               \<lparr>inFlight := []\<rparr>)"
    using step_settled_Inr [OF fl, of "Some (options_callback callback_throwing)"
        record_excellent "Num 5"]
    by simp
  then show ?thesis
    by (simp only: run_settled_Inr s1)
       (simp add: cb th sc errorMsg_of_def measureNetworkQuality_resolved_def
         typedMeasurement_id init_fields)
qed

text \<open>
  C10: handling a rejected native call leaves \<open>measurement\<close> and
  \<open>lastMeasuredAt\<close> of the session as they were: in the handler alone, in the
  session's step, and over a whole refresh whose call rejects.
\<close>

theorem C10_failure_keeps_measurement:
  "measurement_state (run (performMeasurement_settled options now (Inl err)) s)
     = measurement_state s
   \<and> lastMeasuredAt (run (performMeasurement_settled options now (Inl err)) s)
     = lastMeasuredAt s
   \<and> measurement_state (step options s (Settled (Inl err) now)) = measurement_state s
   \<and> lastMeasuredAt (step options s (Settled (Inl err) now)) = lastMeasuredAt s
   \<and> measurement_state (steps options s [Refresh, Settled (Inl err) now])
     = measurement_state s
   \<and> lastMeasuredAt (steps options s [Refresh, Settled (Inl err) now]) = lastMeasuredAt s"
proof -
  have a: "measurement_state (run (performMeasurement_settled options now (Inl err)) s')
             = measurement_state s'
           \<and> lastMeasuredAt (run (performMeasurement_settled options now (Inl err)) s')
             = lastMeasuredAt s'" for s'
    by (simp add: settled_Inl run_catch_finally)
  have b: "measurement_state (step options s' (Settled (Inl err) now)) = measurement_state s'
           \<and> lastMeasuredAt (step options s' (Settled (Inl err) now)) = lastMeasuredAt s'"
    for s'
  proof (cases "inFlight s'")
    case Nil
    then show ?thesis by simp
  next
    case (Cons opts rest)
    then show ?thesis
      using a [of "s'\<lparr>inFlight := rest\<rparr>"] by (simp add: measureNetworkQuality_const)
  qed
  have r: "measurement_state (step options s Refresh) = measurement_state s
           \<and> lastMeasuredAt (step options s Refresh) = lastMeasuredAt s"
    by (simp add: performMeasurement_begin_def)
  have u: "steps options s [Refresh, Settled (Inl err) now]
             = step options (step options s Refresh) (Settled (Inl err) now)"
    by simp
  have c: "measurement_state (steps options s [Refresh, Settled (Inl err) now])
             = measurement_state s
           \<and> lastMeasuredAt (steps options s [Refresh, Settled (Inl err) now])
             = lastMeasuredAt s"
    unfolding u using b [of "step options s Refresh"] r by simp
  from a [of s] b [of s] c show ?thesis by blast
qed

text \<open>
  Witness for C10: a run that succeeded at time 5, then a refresh whose native call
  rejects at time 9; the record and the time of the first run are still there, and the
  tier is cleared.
\<close>

theorem C10_witness:
  "measurement_state (step None
       (steps None init_session [Refresh, Settled (Inr record_excellent) (Num 5), Refresh])
       (Settled (Inl (ErrorObject ''native fault'')) (Num 9)))
     = Some record_excellent
   \<and> lastMeasuredAt (step None
       (steps None init_session [Refresh, Settled (Inr record_excellent) (Num 5), Refresh])
       (Settled (Inl (ErrorObject ''native fault'')) (Num 9)))
     = Some (Num 5)
   \<and> quality_state (step None
       (steps None init_session [Refresh, Settled (Inr record_excellent) (Num 5), Refresh])
       (Settled (Inl (ErrorObject ''native fault'')) (Num 9)))
     = None"
proof -
  define s where
    "s = steps None init_session [Refresh, Settled (Inr record_excellent) (Num 5), Refresh]"
  have s: "measurement_state s = Some record_excellent" "lastMeasuredAt s = Some (Num 5)"
    "inFlight s = [\<lparr>extended = Some True, timeoutMs = Some (Num 3000)\<rparr>]"
    unfolding s_def by (simp_all add: session_defs)
  have q: "quality_state (step None s (Settled (Inl (ErrorObject ''native fault'')) (Num 9)))
             = None"
    by (simp only: step_settled_Inl [OF s(3)] run_catch_finally) simp
  from C10_failure_keeps_measurement [of None "Num 9" "ErrorObject ''native fault''" s] s q
  show ?thesis unfolding s_def by simp
qed

end
